theory Spec2Isabelle
  imports Main
begin

section \<open>Values, errors and promises\<close>

text \<open>
  A JavaScript exception is a value of type \<open>error\<close>: \<open>Error msg\<close> is
  \<^verbatim>\<open>new Error(msg)\<close>, \<open>TypeError msg\<close> is the error the runtime raises when a value
  that is not a function is called. A promise is read at the point where it is awaited:
  it takes the state of the database engine and gives the settled outcome (\<open>Inl\<close> a
  rejection, \<open>Inr\<close> the fulfilment value) with the engine's new state.
\<close>

datatype error = Error string | TypeError string

type_synonym ('r, 'e) promise = "'e \<Rightarrow> (error + 'r) \<times> 'e"

text \<open>
  What a call gives back to its caller at once: a promise, or no promise at all, which
  is a plain value (\<open>Plain (Inr v)\<close>) or an exception thrown before anything is returned
  (\<open>Plain (Inl e)\<close>). A thrown exception and a rejected promise are different results:
  the first is \<open>Plain (Inl e)\<close>, the second a \<open>Promise\<close> that settles to \<open>Inl e\<close>.
\<close>

datatype ('r, 'e) returned =
  Promise "('r, 'e) promise"
  | Plain "error + 'r"

text \<open>
  \<^verbatim>\<open>async () => { return x }\<close> and \<^verbatim>\<open>await x\<close>: the promise of an \<^verbatim>\<open>async\<close> function
  follows a returned promise, is fulfilled with a returned plain value and rejected with
  an exception thrown in its body; \<^verbatim>\<open>await\<close> treats its operand the same way. The
  \<^verbatim>\<open>async\<close> function with body \<open>x\<close> is \<open>Promise (async_return x)\<close>.
\<close>

definition async_return :: "('r, 'e) returned \<Rightarrow> ('r, 'e) promise" where
  "async_return x = (case x of Promise p \<Rightarrow> p | Plain r \<Rightarrow> (\<lambda>eng. (r, eng)))"

section \<open>The client interface the library consumes\<close>

text \<open>
  The ORM client is not part of the repository. The library uses three things of it:
  the per-model sub-resource (delegate) with its five query methods, the property lookup
  \<^verbatim>\<open>client[modelName]\<close>, and \<^verbatim>\<open>$transaction\<close> on the root client. They are data here, so
  that everything proved about \<^verbatim>\<open>context.ts\<close>, \<^verbatim>\<open>prisma-manager.ts\<close>,
  \<^verbatim>\<open>base-repository.ts\<close> and \<^verbatim>\<open>decorators.ts\<close> holds for every client.
\<close>

record ('a, 'r, 'e) delegate =
  create :: "'a \<Rightarrow> ('r, 'e) promise"
  findUnique :: "'a \<Rightarrow> ('r, 'e) promise"
  findMany :: "'a option \<Rightarrow> ('r, 'e) promise"
  update :: "'a \<Rightarrow> ('r, 'e) promise"
  delete :: "'a \<Rightarrow> ('r, 'e) promise"

text \<open>
  What \<^verbatim>\<open>client[name]\<close> can be when it is not \<^verbatim>\<open>undefined\<close>: a delegate, or some other
  member of the client object, such as the method \<^verbatim>\<open>$transaction\<close> that
  \<^verbatim>\<open>context.ts\<close> calls on the root client or the \<^verbatim>\<open>constructor\<close> that every object
  inherits. Such a member is truthy and has none of the five query methods. A client is
  the table of its members by name; \<open>None\<close> is \<^verbatim>\<open>undefined\<close>.
\<close>

datatype ('a, 'r, 'e) member =
  Delegate "('a, 'r, 'e) delegate"
  | Other_member

type_synonym ('a, 'r, 'e) TransactionClient = "string \<Rightarrow> ('a, 'r, 'e) member option"

text \<open>
  The field \<open>transaction\<close> is \<^verbatim>\<open>$transaction\<close>, which a transaction client does not
  offer to the library. Its callback is called with the client of the transaction and
  may return a promise or throw.
\<close>

record ('a, 'r, 'e) PrismaClient =
  members :: "string \<Rightarrow> ('a, 'r, 'e) member option"
  transaction :: "(('a, 'r, 'e) TransactionClient \<Rightarrow> ('r, 'e) returned) \<Rightarrow> ('r, 'e) promise"

text \<open>\<^verbatim>\<open>type PrismaClientLike = PrismaClient | Prisma.TransactionClient\<close>\<close>

datatype ('a, 'r, 'e) PrismaClientLike =
  Root_client "('a, 'r, 'e) PrismaClient"
  | Tx_client "('a, 'r, 'e) TransactionClient"

text \<open>\<^verbatim>\<open>client[name]\<close>\<close>

definition property :: "('a, 'r, 'e) PrismaClientLike \<Rightarrow> string \<Rightarrow> ('a, 'r, 'e) member option" where
  "property client name = (case client of Root_client c \<Rightarrow> members c name | Tx_client t \<Rightarrow> t name)"

text \<open>
  \<^verbatim>\<open>(value as any).method(args)\<close> for one of the five query methods: on a delegate the
  method is called and returns its promise; on any other member the method is
  \<^verbatim>\<open>undefined\<close> and calling it throws a \<^verbatim>\<open>TypeError\<close>.
\<close>

definition call_method ::
    "('a, 'r, 'e) member \<Rightarrow> string \<Rightarrow> (('a, 'r, 'e) delegate \<Rightarrow> 'x \<Rightarrow> ('r, 'e) promise) \<Rightarrow> 'x \<Rightarrow>
     ('r, 'e) returned" where
  "call_method v name method args =
     (case v of
        Delegate d \<Rightarrow> Promise (method d args)
      | Other_member \<Rightarrow> Plain (Inl (TypeError (''this.delegate.'' @ name @ '' is not a function''))))"

section \<open>context.ts\<close>

text \<open>
  \<^verbatim>\<open>prismaContext\<close> is an \<^verbatim>\<open>AsyncLocalStorage\<close>. Within one call-tree its store is
  the value given to the innermost enclosing \<^verbatim>\<open>run\<close>, or \<^verbatim>\<open>undefined\<close>; the model
  passes it to every function as an argument. A \<open>callback\<close> is a function of no
  arguments waiting for the store it is called under; what it gives back is a promise,
  a plain value or an exception.
\<close>

type_synonym ('a, 'r, 'e) store = "('a, 'r, 'e) TransactionClient option"

type_synonym ('a, 'r, 'e) callback = "('a, 'r, 'e) store \<Rightarrow> ('r, 'e) returned"

definition getTransactionClient :: "('a, 'r, 'e) store \<Rightarrow> ('a, 'r, 'e) TransactionClient option" where
  "getTransactionClient store = store"

text \<open>\<^verbatim>\<open>prismaContext.run(tx, callback)\<close> gives back what the callback gives back.\<close>

definition runInTransactionContext ::
    "('a, 'r, 'e) TransactionClient \<Rightarrow> ('a, 'r, 'e) callback \<Rightarrow> ('r, 'e) returned" where
  "runInTransactionContext tx callback = callback (Some tx)"

definition runInTransaction ::
    "('a, 'r, 'e) PrismaClient \<Rightarrow> ('a, 'r, 'e) callback \<Rightarrow> ('a, 'r, 'e) callback" where
  "runInTransaction rootPrismaClient callback store =
     (case getTransactionClient store of
        Some existing \<Rightarrow> runInTransactionContext existing callback
      | None \<Rightarrow>
          Promise (transaction rootPrismaClient (\<lambda>tx. runInTransactionContext tx callback)))"

section \<open>prisma-manager.ts\<close>

definition getPrismaClient ::
    "('a, 'r, 'e) PrismaClient \<Rightarrow> ('a, 'r, 'e) store \<Rightarrow> ('a, 'r, 'e) PrismaClientLike" where
  "getPrismaClient rootPrismaClient store =
     (case getTransactionClient store of
        Some tx \<Rightarrow> Tx_client tx
      | None \<Rightarrow> Root_client rootPrismaClient)"

section \<open>base-repository.ts\<close>

subsection \<open>The string operations of \<^verbatim>\<open>resolveModelName\<close>\<close>

text \<open>
  Strings are lists of code units below 256. \<^verbatim>\<open>toLowerCase\<close> maps the upper-case
  letters of that range (A to Z, and U+00C0 to U+00DE without the multiplication sign)
  to the code unit 32 above, which is the one with bit 5 set.
\<close>

definition toLowerCase_char :: "char \<Rightarrow> char" where
  "toLowerCase_char c =
     (let n = (of_char c :: nat)
      in if (65 \<le> n \<and> n \<le> 90) \<or> (192 \<le> n \<and> n \<le> 222 \<and> n \<noteq> 215)
         then (case c of Char b0 b1 b2 b3 b4 b5 b6 b7 \<Rightarrow> Char b0 b1 b2 b3 b4 True b6 b7)
         else c)"

definition toLowerCase :: "string \<Rightarrow> string" where
  "toLowerCase s = map toLowerCase_char s"

definition charAt :: "string \<Rightarrow> nat \<Rightarrow> string" where
  "charAt s i = take 1 (drop i s)"

definition endsWith :: "string \<Rightarrow> string \<Rightarrow> bool" where
  "endsWith s searchString =
     (length searchString \<le> length s \<and> drop (length s - length searchString) s = searchString)"

text \<open>
  \<^verbatim>\<open>s.slice(start, end)\<close>: a negative index counts from the end, both are clamped to
  the string, and a missing \<^verbatim>\<open>end\<close> is the length.
\<close>

definition relative_index :: "nat \<Rightarrow> int \<Rightarrow> nat" where
  "relative_index len i = (if i < 0 then nat (max (int len + i) 0) else min (nat i) len)"

definition slice :: "string \<Rightarrow> int \<Rightarrow> int option \<Rightarrow> string" where
  "slice s start end =
     (let len = length s;
          from = relative_index len start;
          to = (case end of None \<Rightarrow> len | Some e \<Rightarrow> relative_index len e)
      in take (to - from) (drop from s))"

subsection \<open>The repository\<close>

text \<open>
  A repository instance: the optional field \<^verbatim>\<open>modelName\<close> and the name of its concrete
  class, \<^verbatim>\<open>this.constructor.name\<close>.
\<close>

record repository =
  this_modelName :: "string option"
  constructor_name :: string

text \<open>\<^verbatim>\<open>if (this.modelName)\<close>: \<^verbatim>\<open>undefined\<close> and the empty string are falsy.\<close>

definition truthy :: "string option \<Rightarrow> bool" where
  "truthy v = (case v of None \<Rightarrow> False | Some s \<Rightarrow> s \<noteq> [])"

definition resolveModelName :: "repository \<Rightarrow> string" where
  "resolveModelName this =
     (if truthy (this_modelName this) then the (this_modelName this)
      else
        let className = constructor_name this;
            inferred =
              (if endsWith className ''Repository''
               then slice className 0 (Some (- int (length ''Repository'')))
               else className);
            camelCased = toLowerCase (charAt inferred 0) @ slice inferred 1 None
        in camelCased)"

definition unknown_model_message :: "string \<Rightarrow> string \<Rightarrow> string" where
  "unknown_model_message modelName className =
     ''Unknown Prisma model '' @ [CHR 0x27] @ modelName @ [CHR 0x27] @ '' for '' @
     className @ ''. '' @ ''Set modelName explicitly on the repository.''"

text \<open>
  The getter \<^verbatim>\<open>delegate\<close>; its \<^verbatim>\<open>throw\<close> is the result \<open>Inl\<close>. The check
  \<^verbatim>\<open>if (!delegate)\<close> fails on \<^verbatim>\<open>undefined\<close> only: every member of a client is an object
  or a function, hence truthy. The cast \<^verbatim>\<open>as Delegate<M>\<close> checks nothing at run time.
\<close>

definition BaseRepository_delegate ::
    "('a, 'r, 'e) PrismaClient \<Rightarrow> repository \<Rightarrow> ('a, 'r, 'e) store \<Rightarrow> error + ('a, 'r, 'e) member" where
  "BaseRepository_delegate rootPrismaClient this store =
     (let client = getPrismaClient rootPrismaClient store;
          modelName = resolveModelName this
      in case property client modelName of
           None \<Rightarrow> Inl (Error (unknown_model_message modelName (constructor_name this)))
         | Some delegate \<Rightarrow> Inr delegate)"

text \<open>
  The five query methods are not \<^verbatim>\<open>async\<close>: an exception of the getter, or of the call
  on what the getter returned, is thrown to the caller, and the promise of the delegate
  is returned as it is.
\<close>

definition BaseRepository_create ::
    "('a, 'r, 'e) PrismaClient \<Rightarrow> repository \<Rightarrow> 'a \<Rightarrow> ('a, 'r, 'e) callback" where
  "BaseRepository_create rootPrismaClient this args store =
     (case BaseRepository_delegate rootPrismaClient this store of
        Inl e \<Rightarrow> Plain (Inl e)
      | Inr v \<Rightarrow> call_method v ''create'' create args)"

definition BaseRepository_findUnique ::
    "('a, 'r, 'e) PrismaClient \<Rightarrow> repository \<Rightarrow> 'a \<Rightarrow> ('a, 'r, 'e) callback" where
  "BaseRepository_findUnique rootPrismaClient this args store =
     (case BaseRepository_delegate rootPrismaClient this store of
        Inl e \<Rightarrow> Plain (Inl e)
      | Inr v \<Rightarrow> call_method v ''findUnique'' findUnique args)"

definition BaseRepository_findMany ::
    "('a, 'r, 'e) PrismaClient \<Rightarrow> repository \<Rightarrow> 'a option \<Rightarrow> ('a, 'r, 'e) callback" where
  "BaseRepository_findMany rootPrismaClient this args store =
     (case BaseRepository_delegate rootPrismaClient this store of
        Inl e \<Rightarrow> Plain (Inl e)
      | Inr v \<Rightarrow> call_method v ''findMany'' findMany args)"

definition BaseRepository_update ::
    "('a, 'r, 'e) PrismaClient \<Rightarrow> repository \<Rightarrow> 'a \<Rightarrow> ('a, 'r, 'e) callback" where
  "BaseRepository_update rootPrismaClient this args store =
     (case BaseRepository_delegate rootPrismaClient this store of
        Inl e \<Rightarrow> Plain (Inl e)
      | Inr v \<Rightarrow> call_method v ''update'' update args)"

definition BaseRepository_delete ::
    "('a, 'r, 'e) PrismaClient \<Rightarrow> repository \<Rightarrow> 'a \<Rightarrow> ('a, 'r, 'e) callback" where
  "BaseRepository_delete rootPrismaClient this args store =
     (case BaseRepository_delegate rootPrismaClient this store of
        Inl e \<Rightarrow> Plain (Inl e)
      | Inr v \<Rightarrow> call_method v ''delete'' delete args)"

section \<open>decorators.ts\<close>

text \<open>
  A method takes \<^verbatim>\<open>this\<close>, its arguments and the store it is called under. The type
  parameter of the decorator, \<^verbatim>\<open>T extends (...args: any[]) => Promise<any>\<close>, asks for a
  method that returns a promise; it is erased at run time, and it does not keep a method
  from throwing before it returns one. The property descriptor carries the method in
  \<^verbatim>\<open>descriptor.value\<close>, which is absent on an accessor.
\<close>

record ('t, 'g, 'a, 'r, 'e) descriptor =
  descriptor_value :: "('t \<Rightarrow> 'g \<Rightarrow> ('a, 'r, 'e) callback) option"

text \<open>
  The replacement method is an \<^verbatim>\<open>async\<close> function, and so are the two arrow functions
  in it: each is \<open>Promise (async_return body)\<close>.
\<close>

definition wrapped ::
    "('a, 'r, 'e) PrismaClient \<Rightarrow> ('t \<Rightarrow> 'g \<Rightarrow> ('a, 'r, 'e) callback) \<Rightarrow>
     't \<Rightarrow> 'g \<Rightarrow> ('a, 'r, 'e) callback" where
  "wrapped rootPrismaClient originalMethod this args store =
     Promise (async_return
       (if getTransactionClient store \<noteq> None
        then originalMethod this args store
        else Promise (transaction rootPrismaClient
               (\<lambda>tx. Promise (async_return
                  (runInTransactionContext tx
                     (\<lambda>store'. Promise (async_return (originalMethod this args store')))))))))"

definition Transactional ::
    "('a, 'r, 'e) PrismaClient \<Rightarrow> ('t, 'g, 'a, 'r, 'e) descriptor \<Rightarrow>
     error + ('t, 'g, 'a, 'r, 'e) descriptor" where
  "Transactional rootPrismaClient descriptor =
     (case descriptor_value descriptor of
        None \<Rightarrow> Inl (Error ''Transactional decorator can only be applied to methods.'')
      | Some originalMethod \<Rightarrow>
          Inr (descriptor\<lparr>descriptor_value := Some (wrapped rootPrismaClient originalMethod)\<rparr>))"

section \<open>repository-factory.ts\<close>

text \<open>
  The static members of the class \<^verbatim>\<open>BaseRepository\<close>, by name. The class body declares a
  field, a constructor, the private method \<^verbatim>\<open>resolveModelName\<close>, the getter
  \<^verbatim>\<open>delegate\<close> and the five query methods; none of them is static, and the class extends
  nothing.
\<close>

definition BaseRepository_static :: "string \<Rightarrow> (string \<Rightarrow> 'c) option" where
  "BaseRepository_static name = None"

text \<open>
  \<^verbatim>\<open>BaseRepository.forModel(modelName)\<close>: calling a property that is \<^verbatim>\<open>undefined\<close>
  raises a \<^verbatim>\<open>TypeError\<close>.
\<close>

definition defineRepository :: "string \<Rightarrow> error + 'c" where
  "defineRepository modelName =
     (case BaseRepository_static ''forModel'' of
        None \<Rightarrow> Inl (TypeError ''BaseRepository.forModel is not a function'')
      | Some forModel \<Rightarrow> Inr (forModel modelName))"

section \<open>The database engine\<close>

text \<open>
  Modelled from the spec: the underlying engine client, which the repository consumes and
  does not define (section 6: a uniform sub-resource per entity name with create,
  findUnique, findMany, update and delete, and a \<^verbatim>\<open>$transaction(callback)\<close> primitive that
  gives the awaited result of the callback, commits on normal return and rolls back on a
  thrown error).

  A statement is a query that the engine accepted: the model and the call. The engine
  keeps the committed statements, which is what any later reader can observe, the
  statements buffered by each transaction, and the number of \<^verbatim>\<open>$transaction\<close> calls it
  has received; that number also names the next transaction.
\<close>

datatype 'a call =
  Create 'a | FindUnique 'a | FindMany "'a option" | Update 'a | Delete 'a

type_synonym 'a statement = "string \<times> 'a call"

record 'a engine =
  committed :: "'a statement list"
  pending :: "nat \<Rightarrow> 'a statement list"
  opened :: nat

text \<open>
  The database itself is a parameter: the names of its models, and what it answers to a
  statement given the statements visible to the handle that issues it.
\<close>

record ('a, 'r) database =
  schema :: "string list"
  answer :: "'a statement list \<Rightarrow> 'a statement \<Rightarrow> error + 'r"

datatype handle = Root_handle | Tx_handle nat

definition visible :: "handle \<Rightarrow> 'a engine \<Rightarrow> 'a statement list" where
  "visible h eng = (case h of Root_handle \<Rightarrow> committed eng | Tx_handle i \<Rightarrow> committed eng @ pending eng i)"

definition issue :: "handle \<Rightarrow> 'a statement \<Rightarrow> 'a engine \<Rightarrow> 'a engine" where
  "issue h s eng =
     (case h of
        Root_handle \<Rightarrow> eng\<lparr>committed := committed eng @ [s]\<rparr>
      | Tx_handle i \<Rightarrow> eng\<lparr>pending := (pending eng)(i := pending eng i @ [s])\<rparr>)"

text \<open>
  Modelled from the spec: a query method of a sub-resource. The database answers from
  what the issuing handle can see, which for a transaction is the committed statements
  followed by its own; an accepted statement is committed at once on the root handle
  and buffered on a transaction handle, a rejected one leaves the engine as it was.
\<close>

definition query :: "('a, 'r) database \<Rightarrow> handle \<Rightarrow> 'a statement \<Rightarrow> ('r, 'a engine) promise" where
  "query db h s eng =
     (case answer db (visible h eng) s of
        Inl e \<Rightarrow> (Inl e, eng)
      | Inr v \<Rightarrow> (Inr v, issue h s eng))"

definition delegate_of :: "('a, 'r) database \<Rightarrow> handle \<Rightarrow> string \<Rightarrow> ('a, 'r, 'a engine) delegate" where
  "delegate_of db h model =
     \<lparr>create = (\<lambda>args. query db h (model, Create args)),
      findUnique = (\<lambda>args. query db h (model, FindUnique args)),
      findMany = (\<lambda>args. query db h (model, FindMany args)),
      update = (\<lambda>args. query db h (model, Update args)),
      delete = (\<lambda>args. query db h (model, Delete args))\<rparr>"

text \<open>
  The members of a client that are not sub-resources, as far as the sources show them:
  \<^verbatim>\<open>constructor\<close>, which every object has, and on the root client the methods that
  \<^verbatim>\<open>context.ts\<close>, \<^verbatim>\<open>decorators.ts\<close> and \<^verbatim>\<open>client.ts\<close> call on it.
\<close>

definition other_members :: "handle \<Rightarrow> string list" where
  "other_members h =
     (case h of
        Root_handle \<Rightarrow>
          [''constructor'', ''$transaction'', ''$connect'', ''$disconnect'', ''$queryRawUnsafe'']
      | Tx_handle i \<Rightarrow> [''constructor''])"

text \<open>
  Modelled from the spec: the client of a handle, with one sub-resource for each model of
  the schema.
\<close>

definition client_members :: "('a, 'r) database \<Rightarrow> handle \<Rightarrow> ('a, 'r, 'a engine) TransactionClient" where
  "client_members db h name =
     (if name \<in> set (schema db) then Some (Delegate (delegate_of db h name))
      else if name \<in> set (other_members h) then Some Other_member
      else None)"

definition begin_transaction :: "'a engine \<Rightarrow> 'a engine" where
  "begin_transaction eng =
     eng\<lparr>pending := (pending eng)(opened eng := []), opened := Suc (opened eng)\<rparr>"

definition commit :: "nat \<Rightarrow> 'a engine \<Rightarrow> 'a engine" where
  "commit i eng = eng\<lparr>committed := committed eng @ pending eng i, pending := (pending eng)(i := [])\<rparr>"

definition rollback :: "nat \<Rightarrow> 'a engine \<Rightarrow> 'a engine" where
  "rollback i eng = eng\<lparr>pending := (pending eng)(i := [])\<rparr>"

text \<open>
  Modelled from the spec: \<^verbatim>\<open>$transaction(callback)\<close>. It counts the call, opens a
  transaction with an empty buffer, calls the callback with the client of that
  transaction, awaits what the callback gives back and gives that outcome: on a value it
  commits, which appends the buffer to the committed statements, and on an error, thrown
  or rejected, it rolls back, which drops the buffer.
\<close>

definition engine_transaction ::
    "('a, 'r) database \<Rightarrow> (('a, 'r, 'a engine) TransactionClient \<Rightarrow> ('r, 'a engine) returned) \<Rightarrow>
     ('r, 'a engine) promise" where
  "engine_transaction db callback eng =
     (let i = opened eng
      in case async_return (callback (client_members db (Tx_handle i))) (begin_transaction eng) of
           (Inr v, eng') \<Rightarrow> (Inr v, commit i eng')
         | (Inl e, eng') \<Rightarrow> (Inl e, rollback i eng'))"

text \<open>
  Modelled from the spec: the root client (\<^verbatim>\<open>new PrismaClient(...)\<close> in
  \<^verbatim>\<open>client.ts\<close>), whose queries are not bound to any transaction.
\<close>

definition rootPrismaClient :: "('a, 'r) database \<Rightarrow> ('a, 'r, 'a engine) PrismaClient" where
  "rootPrismaClient db =
     \<lparr>members = client_members db Root_handle, transaction = engine_transaction db\<rparr>"

section \<open>Application code\<close>

text \<open>
  The operations handed to the library are asynchronous functions of the application.
  Those that reach the database through repositories only, as the library asks of code
  inside a unit of work, are given by a script, the body of an \<^verbatim>\<open>async\<close> function: an
  awaited repository call, \<^verbatim>\<open>return\<close>, \<^verbatim>\<open>throw\<close>, \<^verbatim>\<open>await\<close> followed by the rest of the
  body, \<^verbatim>\<open>try\<close> and \<^verbatim>\<open>catch\<close>, an awaited nested \<^verbatim>\<open>runInTransaction\<close> of an
  \<^verbatim>\<open>async\<close> arrow function, and an awaited call of an \<^verbatim>\<open>async\<close> method decorated with
  \<^verbatim>\<open>@Transactional()\<close>. Running a script under a store gives the promise of that
  \<^verbatim>\<open>async\<close> function.
\<close>

datatype ('a, 'r) script =
  Call repository "'a call"
  | Return 'r
  | Throw error
  | Await "('a, 'r) script" "'r \<Rightarrow> ('a, 'r) script"
  | TryCatch "('a, 'r) script" "error \<Rightarrow> ('a, 'r) script"
  | RunInTransaction "('a, 'r) script"
  | TransactionalMethod "('a, 'r) script"

definition repository_call ::
    "('a, 'r, 'e) PrismaClient \<Rightarrow> repository \<Rightarrow> 'a call \<Rightarrow> ('a, 'r, 'e) callback" where
  "repository_call root repo c =
     (case c of
        Create args \<Rightarrow> BaseRepository_create root repo args
      | FindUnique args \<Rightarrow> BaseRepository_findUnique root repo args
      | FindMany args \<Rightarrow> BaseRepository_findMany root repo args
      | Update args \<Rightarrow> BaseRepository_update root repo args
      | Delete args \<Rightarrow> BaseRepository_delete root repo args)"

primrec exec ::
    "('a, 'r) database \<Rightarrow> ('a, 'r) script \<Rightarrow>
     ('a, 'r, 'a engine) store \<Rightarrow> ('r, 'a engine) promise" where
  "exec db (Call repo c) =
     (\<lambda>store. async_return (repository_call (rootPrismaClient db) repo c store))"
| "exec db (Return v) = (\<lambda>store eng. (Inr v, eng))"
| "exec db (Throw e) = (\<lambda>store eng. (Inl e, eng))"
| "exec db (Await p k) =
     (\<lambda>store eng.
        case exec db p store eng of
          (Inl e, eng') \<Rightarrow> (Inl e, eng')
        | (Inr v, eng') \<Rightarrow> exec db (k v) store eng')"
| "exec db (TryCatch p handler) =
     (\<lambda>store eng.
        case exec db p store eng of
          (Inl e, eng') \<Rightarrow> exec db (handler e) store eng'
        | (Inr v, eng') \<Rightarrow> (Inr v, eng'))"
| "exec db (RunInTransaction p) =
     (\<lambda>store. async_return
        (runInTransaction (rootPrismaClient db) (\<lambda>store'. Promise (exec db p store')) store))"
| "exec db (TransactionalMethod p) =
     (\<lambda>store. async_return
        (wrapped (rootPrismaClient db) (\<lambda>this args store'. Promise (exec db p store')) () () store))"

section \<open>A small database for the examples\<close>

text \<open>
  Two models, as in the test suite of the repository. The database rejects a statement
  it has already seen and otherwise answers with the number of statements visible to
  the handle.
\<close>

definition demo_db :: "(string, nat) database" where
  "demo_db =
     \<lparr>schema = [''user'', ''post''],
      answer = (\<lambda>seen s. if s \<in> set seen then Inl (Error ''Unique constraint failed'')
                              else Inr (length seen))\<rparr>"

definition empty_engine :: "string engine" where
  "empty_engine = \<lparr>committed = [], pending = (\<lambda>i. []), opened = 0\<rparr>"

text \<open>
  The repositories and the service methods of the test suite, with the call sites of the
  decorated methods written as \<open>TransactionalMethod\<close>: \<^verbatim>\<open>createUserAndPost\<close> and
  \<^verbatim>\<open>createThenFail\<close> are the bodies, \<^verbatim>\<open>nestedTransaction\<close> is a decorated method that
  calls the decorated \<^verbatim>\<open>createUserAndPost\<close>.
\<close>

definition UserRepository :: repository where
  "UserRepository = \<lparr>this_modelName = None, constructor_name = ''UserRepository''\<rparr>"

definition PostRepository :: repository where
  "PostRepository = \<lparr>this_modelName = None, constructor_name = ''PostRepository''\<rparr>"

definition createUserAndPost :: "string \<Rightarrow> string \<Rightarrow> (string, nat) script" where
  "createUserAndPost email title =
     Await (Call UserRepository (Create email))
       (\<lambda>user. Await (Call PostRepository (Create title)) (\<lambda>post. Return user))"

definition createThenFail :: "string \<Rightarrow> (string, nat) script" where
  "createThenFail email =
     Await (Call UserRepository (Create email)) (\<lambda>user. Throw (Error ''Simulated Failure''))"

definition nestedTransaction :: "string \<Rightarrow> string \<Rightarrow> (string, nat) script" where
  "nestedTransaction email title = TransactionalMethod (TransactionalMethod (createUserAndPost email title))"

text \<open>A method that is not asynchronous: \<^verbatim>\<open>method() { return 7 }\<close>.\<close>

definition syncMethod :: "unit \<Rightarrow> unit \<Rightarrow> (string, nat, string engine) callback" where
  "syncMethod this args store = Plain (Inr 7)"

text \<open>
  A method of the decorator's type that throws before it returns its promise:
  \<^verbatim>\<open>method(): Promise<number> { throw new Error('not ready') }\<close>.
\<close>

definition throwingMethod :: "unit \<Rightarrow> unit \<Rightarrow> (string, nat, string engine) callback" where
  "throwingMethod this args store = Plain (Inl (Error ''not ready''))"


section \<open>The string operations\<close>

lemma endsWith_append: "endsWith (base @ suffix) suffix"
  by (simp add: endsWith_def)

lemma slice_strip:
  "suffix \<noteq> [] \<Longrightarrow> slice (base @ suffix) 0 (Some (- int (length suffix))) = base"
  by (simp add: slice_def relative_index_def Let_def)

lemma slice_from_1: "slice s 1 None = drop 1 s"
  by (cases s) (simp_all add: slice_def relative_index_def Let_def)

lemma lower_first:
  "toLowerCase (charAt s 0) @ slice s 1 None =
     (case s of [] \<Rightarrow> [] | c # cs \<Rightarrow> toLowerCase_char c # cs)"
  by (cases s) (simp_all add: toLowerCase_def charAt_def slice_from_1)

section \<open>Model name resolution\<close>

lemma not_truthy_None: "\<not> truthy None"
  by (simp add: truthy_def)

lemma resolve_explicit:
  "n \<noteq> [] \<Longrightarrow> resolveModelName \<lparr>this_modelName = Some n, constructor_name = c\<rparr> = n"
  by (simp add: resolveModelName_def truthy_def)

lemma resolve_suffix:
  "\<not> truthy m \<Longrightarrow>
   resolveModelName \<lparr>this_modelName = m, constructor_name = base @ ''Repository''\<rparr> =
     (case base of [] \<Rightarrow> [] | c # cs \<Rightarrow> toLowerCase_char c # cs)"
  using slice_strip [of "''Repository''" base]
  by (simp add: resolveModelName_def endsWith_append lower_first Let_def del: append.simps)


lemma delegate_lookup:
  "BaseRepository_delegate root this store =
     (case property (getPrismaClient root store) (resolveModelName this) of
        None \<Rightarrow> Inl (Error (unknown_model_message (resolveModelName this) (constructor_name this)))
      | Some d \<Rightarrow> Inr d)"
  by (simp add: BaseRepository_delegate_def Let_def)

lemmas string_ops =
  resolveModelName_def truthy_def endsWith_def slice_def relative_index_def toLowerCase_def
  charAt_def toLowerCase_char_def Let_def

lemmas lookup_ops =
  getPrismaClient_def getTransactionClient_def property_def rootPrismaClient_def
  client_members_def other_members_def demo_db_def

text \<open>
  Claim C7. The model name used for the delegate lookup is the explicitly configured name
  whenever one was supplied: \<^verbatim>\<open>resolveModelName\<close> returns it and the getter \<^verbatim>\<open>delegate\<close>
  looks it up on the resolved client, whatever the class is called. With no explicit
  name, a class name that ends in \<^verbatim>\<open>Repository\<close> loses that suffix and has its first
  character lower-cased, so \<^verbatim>\<open>UserRepository\<close> gives \<^verbatim>\<open>user\<close>. (A configured name is a
  model name, hence not the empty string, which \<^verbatim>\<open>if (this.modelName)\<close> takes for
  missing.)
\<close>

theorem resolveModelName_explicit_precedence:
  "(n \<noteq> [] \<longrightarrow>
      resolveModelName \<lparr>this_modelName = Some n, constructor_name = c\<rparr> = n \<and>
      BaseRepository_delegate root \<lparr>this_modelName = Some n, constructor_name = c\<rparr> store =
        (case property (getPrismaClient root store) n of
           None \<Rightarrow> Inl (Error (unknown_model_message n c))
         | Some d \<Rightarrow> Inr d)) \<and>
   resolveModelName \<lparr>this_modelName = None, constructor_name = base @ ''Repository''\<rparr> =
     (case base of [] \<Rightarrow> [] | x # xs \<Rightarrow> toLowerCase_char x # xs) \<and>
   resolveModelName \<lparr>this_modelName = None, constructor_name = ''UserRepository''\<rparr> = ''user''"
proof (intro conjI impI)
  assume n: "n \<noteq> []"
  then show "resolveModelName \<lparr>this_modelName = Some n, constructor_name = c\<rparr> = n"
    by (rule resolve_explicit)
  from n show "BaseRepository_delegate root \<lparr>this_modelName = Some n, constructor_name = c\<rparr> store =
        (case property (getPrismaClient root store) n of
           None \<Rightarrow> Inl (Error (unknown_model_message n c))
         | Some d \<Rightarrow> Inr d)"
    by (simp add: delegate_lookup resolve_explicit split: option.split)
next
  show "resolveModelName \<lparr>this_modelName = None, constructor_name = base @ ''Repository''\<rparr> =
     (case base of [] \<Rightarrow> [] | x # xs \<Rightarrow> toLowerCase_char x # xs)"
    by (rule resolve_suffix [OF not_truthy_None])
next
  show "resolveModelName \<lparr>this_modelName = None, constructor_name = ''UserRepository''\<rparr> = ''user''"
    using resolve_suffix [OF not_truthy_None, of "''User''"]
    by (simp add: toLowerCase_char_def)
qed

theorem resolveModelName_explicit_precedence_witness:
  "''account'' \<noteq> [] \<and>
   resolveModelName \<lparr>this_modelName = Some ''account'', constructor_name = ''UserRepository''\<rparr> = ''account'' \<and>
   BaseRepository_delegate (rootPrismaClient demo_db)
       \<lparr>this_modelName = Some ''post'', constructor_name = ''UserRepository''\<rparr> None =
     Inr (Delegate (delegate_of demo_db Root_handle ''post'')) \<and>
   resolveModelName \<lparr>this_modelName = None, constructor_name = ''PostRepository''\<rparr> = ''post''"
  using resolveModelName_explicit_precedence [of "''account''" "''UserRepository''" "rootPrismaClient demo_db" None "''Post''"]
    resolveModelName_explicit_precedence [of "''post''" "''UserRepository''" "rootPrismaClient demo_db" None "''Post''"]
  by (simp add: toLowerCase_char_def lookup_ops)






section \<open>The client resolver\<close>

text \<open>
  Claim C4. \<^verbatim>\<open>getPrismaClient\<close> returns the transaction client held by the ambient
  context when there is one and the root client otherwise; in particular inside
  \<^verbatim>\<open>runInTransactionContext tx\<close> it returns \<open>tx\<close>. It is a function of the store alone:
  it reads no engine state, changes none, and has no error result.
\<close>

theorem getPrismaClient_resolves:
  "getPrismaClient root (Some tx) = Tx_client tx \<and>
   getPrismaClient root None = Root_client root \<and>
   runInTransactionContext tx (\<lambda>store. k (getPrismaClient root store)) = k (Tx_client tx)"
  by (simp add: getPrismaClient_def getTransactionClient_def runInTransactionContext_def)

section \<open>The query methods of the repository\<close>




section \<open>Units of work\<close>

subsection \<open>Inside a transaction nothing is opened and nothing is committed\<close>

lemma async_return_Promise [simp]: "async_return (Promise p) = p"
  by (simp add: async_return_def)

lemma async_return_Plain [simp]: "async_return (Plain r) eng = (r, eng)"
  by (simp add: async_return_def)

lemma issue_Tx [simp]:
  "committed (issue (Tx_handle i) s eng) = committed eng"
  "opened (issue (Tx_handle i) s eng) = opened eng"
  by (simp_all add: issue_def)

lemma query_Tx:
  "committed (snd (query db (Tx_handle i) s eng)) = committed eng"
  "opened (snd (query db (Tx_handle i) s eng)) = opened eng"
  by (simp_all add: query_def split: sum.split)

lemma repository_call_Tx:
  "committed (snd (async_return
      (repository_call root repo c (Some (client_members db (Tx_handle i)))) eng)) = committed eng"
  "opened (snd (async_return
      (repository_call root repo c (Some (client_members db (Tx_handle i)))) eng)) = opened eng"
  by (simp_all add: repository_call_def BaseRepository_create_def BaseRepository_findUnique_def
      BaseRepository_findMany_def BaseRepository_update_def BaseRepository_delete_def
      delegate_lookup getPrismaClient_def getTransactionClient_def property_def
      client_members_def call_method_def delegate_of_def query_Tx split: call.split)

lemma runInTransaction_Some: "runInTransaction root callback (Some tx) = callback (Some tx)"
  by (simp add: runInTransaction_def getTransactionClient_def runInTransactionContext_def)

lemma runInTransaction_None:
  "runInTransaction root callback None = Promise (transaction root (\<lambda>tx. callback (Some tx)))"
  by (simp add: runInTransaction_def getTransactionClient_def runInTransactionContext_def)

lemma wrapped_Some:
  "wrapped root originalMethod this args (Some tx) =
     Promise (async_return (originalMethod this args (Some tx)))"
  by (simp add: wrapped_def getTransactionClient_def)

lemma wrapped_None:
  "wrapped root originalMethod this args None =
     Promise (transaction root (\<lambda>tx. Promise (async_return (originalMethod this args (Some tx)))))"
  by (simp add: wrapped_def getTransactionClient_def runInTransactionContext_def)

lemma wrapped_runInTransaction:
  "wrapped root originalMethod this args store =
     Promise (async_return
       (runInTransaction root (\<lambda>store'. Promise (async_return (originalMethod this args store')))
          store))"
  by (cases store) (simp_all add: wrapped_Some wrapped_None runInTransaction_Some runInTransaction_None)

lemma exec_RunInTransaction_Some:
  "exec db (RunInTransaction p) (Some tx) = exec db p (Some tx)"
  by (simp add: runInTransaction_Some)

lemma exec_TransactionalMethod:
  "exec db (TransactionalMethod p) = exec db (RunInTransaction p)"
  by (simp add: wrapped_runInTransaction)

lemma exec_in_transaction:
  "committed (snd (exec db p (Some (client_members db (Tx_handle i))) eng)) = committed eng \<and>
   opened (snd (exec db p (Some (client_members db (Tx_handle i))) eng)) = opened eng"
proof (induction p arbitrary: eng)
  case (Call repo c)
  show ?case
    by (simp add: repository_call_Tx)
next
  case (Await p k)
  show ?case
    using Await.IH(1) [of eng] Await.IH(2)
    by (auto split: prod.split sum.split)
next
  case (TryCatch p handler)
  show ?case
    using TryCatch.IH(1) [of eng] TryCatch.IH(2)
    by (auto split: prod.split sum.split)
next
  case (RunInTransaction p)
  then show ?case
    by (simp add: exec_RunInTransaction_Some del: exec.simps)
next
  case (TransactionalMethod p)
  then show ?case
    by (simp add: exec_TransactionalMethod exec_RunInTransaction_Some del: exec.simps)
qed simp_all

lemma engine_transaction_opened:
  assumes "\<And>eng. opened (snd (async_return (callback (client_members db (Tx_handle (opened eng0)))) eng)) = opened eng"
  shows "opened (snd (engine_transaction db callback eng0)) = Suc (opened eng0)"
proof -
  let ?run = "async_return (callback (client_members db (Tx_handle (opened eng0)))) (begin_transaction eng0)"
  obtain out eng' where r: "?run = (out, eng')"
    by (cases ?run)
  from assms [of "begin_transaction eng0"] r have "opened eng' = Suc (opened eng0)"
    by (simp add: begin_transaction_def)
  with r show ?thesis
    by (cases out) (simp_all add: engine_transaction_def commit_def rollback_def Let_def)
qed

lemma exec_unit_of_work_opened:
  "opened (snd (exec db (RunInTransaction p) None eng)) = Suc (opened eng)"
  by (simp add: runInTransaction_None rootPrismaClient_def engine_transaction_opened
      exec_in_transaction)

lemma runInTransaction_root_None:
  "async_return (runInTransaction (rootPrismaClient db) callback None) eng =
     (case async_return (callback (Some (client_members db (Tx_handle (opened eng)))))
             (begin_transaction eng) of
        (Inr v, eng') \<Rightarrow> (Inr v, commit (opened eng) eng')
      | (Inl e, eng') \<Rightarrow> (Inl e, rollback (opened eng) eng'))"
  by (simp add: runInTransaction_None rootPrismaClient_def engine_transaction_def Let_def)

subsection \<open>Flattening\<close>

text \<open>
  Claim C1. With a transaction client already in the ambient context, \<^verbatim>\<open>runInTransaction\<close>
  is the operation itself run under that same client, for every root client and every
  operation, and awaiting the call of a method decorated with \<^verbatim>\<open>@Transactional()\<close> is
  awaiting the call of the original method under that client: the root client's
  \<^verbatim>\<open>$transaction\<close> is not reached. Hence application code of any shape, with
  any nesting of units of work in it, leaves the engine's count of \<^verbatim>\<open>$transaction\<close>
  calls as it was when it runs under a transaction client, and a unit of work entered
  with no ambient transaction raises the count by exactly one, whatever it nests.
\<close>

theorem nested_units_of_work_flatten:
  "runInTransaction root callback (Some tx) = callback (Some tx) \<and>
   async_return (wrapped root originalMethod this args (Some tx)) =
     async_return (originalMethod this args (Some tx)) \<and>
   opened (snd (exec db p (Some (client_members db (Tx_handle i))) eng)) = opened eng \<and>
   opened (snd (exec db (RunInTransaction p) None eng)) = Suc (opened eng) \<and>
   opened (snd (exec db (TransactionalMethod p) None eng)) = Suc (opened eng)"
proof (intro conjI)
  show "runInTransaction root callback (Some tx) = callback (Some tx)"
    by (rule runInTransaction_Some)
  show "async_return (wrapped root originalMethod this args (Some tx)) =
     async_return (originalMethod this args (Some tx))"
    by (simp add: wrapped_Some)
  show "opened (snd (exec db p (Some (client_members db (Tx_handle i))) eng)) = opened eng"
    by (simp add: exec_in_transaction)
  show "opened (snd (exec db (RunInTransaction p) None eng)) = Suc (opened eng)"
    by (rule exec_unit_of_work_opened)
  show "opened (snd (exec db (TransactionalMethod p) None eng)) = Suc (opened eng)"
    by (simp only: exec_TransactionalMethod exec_unit_of_work_opened)
qed

theorem nested_units_of_work_flatten_witness:
  "opened (snd (exec demo_db (nestedTransaction ''ada@example.com'' ''Nested Post'') None empty_engine)) = 1"
  using nested_units_of_work_flatten
    [THEN conjunct2, THEN conjunct2, THEN conjunct2, THEN conjunct2,
      of demo_db "TransactionalMethod (createUserAndPost ''ada@example.com'' ''Nested Post'')"
        empty_engine]
  by (simp add: nestedTransaction_def empty_engine_def del: exec.simps)

subsection \<open>Commit and rollback\<close>

text \<open>
  Claim C2. Let \<^verbatim>\<open>runInTransaction\<close> run an operation with no ambient transaction. Its
  outcome is the outcome of the operation, run under the client of the transaction just
  opened: the operation's value, or the very error it raised. When the operation
  fails, the committed statements are what they were before the call (nothing the
  operation issued can be observed through the root client, and the transaction's buffer
  is dropped); when it returns, the statements buffered by the transaction are appended
  to the committed ones.
\<close>

theorem runInTransaction_commits_or_rolls_back:
  "(let i = opened eng;
        inner = exec db p (Some (client_members db (Tx_handle i))) (begin_transaction eng);
        result = async_return
          (runInTransaction (rootPrismaClient db) (\<lambda>store. Promise (exec db p store)) None) eng
    in (\<forall>e. fst inner = Inl e \<longrightarrow>
          fst result = Inl e \<and> committed (snd result) = committed eng \<and>
          visible Root_handle (snd result) = visible Root_handle eng \<and>
          pending (snd result) i = []) \<and>
       (\<forall>v. fst inner = Inr v \<longrightarrow>
          fst result = Inr v \<and>
          committed (snd result) = committed eng @ pending (snd inner) i)) \<and>
   fst (async_return (runInTransaction (rootPrismaClient db) callback None) eng) =
     fst (async_return (callback (Some (client_members db (Tx_handle (opened eng)))))
            (begin_transaction eng))"
proof -
  let ?i = "opened eng"
  let ?inner = "exec db p (Some (client_members db (Tx_handle ?i))) (begin_transaction eng)"
  have kept: "committed (snd ?inner) = committed eng"
    using exec_in_transaction [of db p ?i "begin_transaction eng"]
    by (simp add: begin_transaction_def)
  have general: "fst (async_return (runInTransaction (rootPrismaClient db) callback None) eng) =
     fst (async_return (callback (Some (client_members db (Tx_handle (opened eng)))))
            (begin_transaction eng))"
    by (simp add: runInTransaction_root_None split: prod.split sum.split)
  obtain out eng' where inner: "?inner = (out, eng')"
    by (cases ?inner)
  show ?thesis
  proof (cases out)
    case (Inl e)
    with inner kept general show ?thesis
      by (simp add: runInTransaction_root_None rollback_def visible_def Let_def)
  next
    case (Inr v)
    with inner kept general show ?thesis
      by (simp add: runInTransaction_root_None commit_def Let_def)
  qed
qed

lemmas demo_eval =
  repository_call_def BaseRepository_create_def delegate_lookup call_method_def
  getPrismaClient_def getTransactionClient_def property_def
  client_members_def delegate_of_def demo_db_def query_def visible_def issue_def
  begin_transaction_def empty_engine_def

lemma UserRepository_name: "resolveModelName UserRepository = ''user''"
  by (simp add: UserRepository_def string_ops)

lemma PostRepository_name: "resolveModelName PostRepository = ''post''"
  by (simp add: PostRepository_def string_ops)

lemma createThenFail_inner:
  "exec demo_db (createThenFail ''ada'') (Some (client_members demo_db (Tx_handle 0)))
     (begin_transaction empty_engine) =
   (Inl (Error ''Simulated Failure''),
    \<lparr>committed = [], pending = (\<lambda>i. [])(0 := [(''user'', Create ''ada'')]), opened = 1\<rparr>)"
  by (simp add: createThenFail_def demo_eval UserRepository_name)

lemma createUserAndPost_inner:
  "exec demo_db (createUserAndPost ''ada'' ''Hello'') (Some (client_members demo_db (Tx_handle 0)))
     (begin_transaction empty_engine) =
   (Inr 0,
    \<lparr>committed = [],
     pending = (\<lambda>i. [])(0 := [(''user'', Create ''ada''), (''post'', Create ''Hello'')]),
     opened = 1\<rparr>)"
  by (simp add: createUserAndPost_def demo_eval UserRepository_name PostRepository_name)

theorem runInTransaction_commits_or_rolls_back_witness:
  "fst (exec demo_db (createThenFail ''ada'') (Some (client_members demo_db (Tx_handle 0)))
          (begin_transaction empty_engine)) = Inl (Error ''Simulated Failure'') \<and>
   fst (async_return (runInTransaction (rootPrismaClient demo_db)
          (\<lambda>store. Promise (exec demo_db (createThenFail ''ada'') store)) None)
          empty_engine) = Inl (Error ''Simulated Failure'') \<and>
   committed (snd (async_return (runInTransaction (rootPrismaClient demo_db)
          (\<lambda>store. Promise (exec demo_db (createThenFail ''ada'') store)) None)
          empty_engine)) = [] \<and>
   fst (exec demo_db (createUserAndPost ''ada'' ''Hello'') (Some (client_members demo_db (Tx_handle 0)))
          (begin_transaction empty_engine)) = Inr 0 \<and>
   fst (async_return (runInTransaction (rootPrismaClient demo_db)
          (\<lambda>store. Promise (exec demo_db (createUserAndPost ''ada'' ''Hello'') store)) None)
          empty_engine) = Inr 0 \<and>
   committed (snd (async_return (runInTransaction (rootPrismaClient demo_db)
          (\<lambda>store. Promise (exec demo_db (createUserAndPost ''ada'' ''Hello'') store)) None)
          empty_engine)) =
     [(''user'', Create ''ada''), (''post'', Create ''Hello'')]"
proof -
  have zero: "opened empty_engine = 0" "committed empty_engine = []"
    by (simp_all add: empty_engine_def)
  from runInTransaction_commits_or_rolls_back
         [of empty_engine demo_db "createThenFail ''ada''", THEN conjunct1]
  have failed:
    "fst (async_return (runInTransaction (rootPrismaClient demo_db)
          (\<lambda>store. Promise (exec demo_db (createThenFail ''ada'') store)) None)
          empty_engine) = Inl (Error ''Simulated Failure'') \<and>
     committed (snd (async_return (runInTransaction (rootPrismaClient demo_db)
          (\<lambda>store. Promise (exec demo_db (createThenFail ''ada'') store)) None)
          empty_engine)) = []"
    by (simp add: Let_def zero createThenFail_inner del: exec.simps)
  from runInTransaction_commits_or_rolls_back
         [of empty_engine demo_db "createUserAndPost ''ada'' ''Hello''", THEN conjunct1]
  have succeeded:
    "fst (async_return (runInTransaction (rootPrismaClient demo_db)
          (\<lambda>store. Promise (exec demo_db (createUserAndPost ''ada'' ''Hello'') store)) None)
          empty_engine) = Inr 0 \<and>
     committed (snd (async_return (runInTransaction (rootPrismaClient demo_db)
          (\<lambda>store. Promise (exec demo_db (createUserAndPost ''ada'' ''Hello'') store)) None)
          empty_engine)) =
       [(''user'', Create ''ada''), (''post'', Create ''Hello'')]"
    by (simp add: Let_def zero createUserAndPost_inner del: exec.simps)
  from failed succeeded show ?thesis
    by (simp add: createThenFail_inner createUserAndPost_inner del: exec.simps)
qed

subsection \<open>The decorator\<close>

text \<open>
  Claim C3 fails for a method that throws before it returns its promise, called with a
  transaction active: \<^verbatim>\<open>runInTransaction(() => originalMethod.apply(this, args))\<close> throws
  the error to its caller, because \<^verbatim>\<open>prismaContext.run\<close> gives back what the callback
  gives back, while the decorated method, an \<^verbatim>\<open>async\<close> function, returns a promise that
  rejects with it.
\<close>

theorem Transactional_rejects_where_runInTransaction_throws:
  "runInTransaction (rootPrismaClient demo_db) (throwingMethod () ())
      (Some (client_members demo_db (Tx_handle 0))) = Plain (Inl (Error ''not ready'')) \<and>
   wrapped (rootPrismaClient demo_db) throwingMethod () ()
      (Some (client_members demo_db (Tx_handle 0))) \<noteq> Plain (Inl (Error ''not ready'')) \<and>
   async_return (wrapped (rootPrismaClient demo_db) throwingMethod () ()
      (Some (client_members demo_db (Tx_handle 0)))) empty_engine =
     (Inl (Error ''not ready''), empty_engine)"
  by (simp add: runInTransaction_Some wrapped_Some throwingMethod_def)

text \<open>
  Claim C3 as amended. The decorator replaces every method by its wrapper. For a method
  that returns a promise, a call of the wrapper gives back, for every \<^verbatim>\<open>this\<close>,
  argument list and store, exactly what
  \<^verbatim>\<open>runInTransaction(() => originalMethod.apply(this, args))\<close> gives back: the same
  promise, hence the same value or error, the same transaction opened, committed or rolled
  back, and the same ambient client seen by the body, which receives \<^verbatim>\<open>this\<close> and the
  arguments as they were passed. For any method, awaiting the call of the wrapper settles
  as awaiting that \<^verbatim>\<open>runInTransaction\<close> does, with a transaction active under every root
  client, and with none under the root client of the engine.
\<close>

theorem Transactional_is_runInTransaction:
  "Transactional root \<lparr>descriptor_value = Some originalMethod\<rparr> =
     Inr \<lparr>descriptor_value = Some (wrapped root originalMethod)\<rparr> \<and>
   wrapped root (\<lambda>this args store. Promise (method this args store)) this' args' store =
     runInTransaction root (\<lambda>store'. Promise (method this' args' store')) store \<and>
   async_return (wrapped root originalMethod this args (Some tx)) =
     async_return (runInTransaction root (originalMethod this args) (Some tx)) \<and>
   async_return (wrapped (rootPrismaClient db) originalMethod' this args None) =
     async_return (runInTransaction (rootPrismaClient db) (originalMethod' this args) None)"
proof (intro conjI)
  show "Transactional root \<lparr>descriptor_value = Some originalMethod\<rparr> =
     Inr \<lparr>descriptor_value = Some (wrapped root originalMethod)\<rparr>"
    by (simp add: Transactional_def)
  show "wrapped root (\<lambda>this args store. Promise (method this args store)) this' args' store =
     runInTransaction root (\<lambda>store'. Promise (method this' args' store')) store"
    by (cases store)
      (simp_all add: wrapped_Some wrapped_None runInTransaction_Some runInTransaction_None)
  show "async_return (wrapped root originalMethod this args (Some tx)) =
     async_return (runInTransaction root (originalMethod this args) (Some tx))"
    by (simp add: wrapped_Some runInTransaction_Some)
  show "async_return (wrapped (rootPrismaClient db) originalMethod' this args None) =
     async_return (runInTransaction (rootPrismaClient db) (originalMethod' this args) None)"
    by (simp add: wrapped_None runInTransaction_None rootPrismaClient_def engine_transaction_def
        fun_eq_iff)
qed

text \<open>
  Claim C9 fails: a method that returns a plain value is accepted when it is decorated and
  when it is first called, inside a transaction or outside. Nothing is reported; the call
  fulfils with the plain value.
\<close>

theorem Transactional_accepts_plain_method:
  "Transactional (rootPrismaClient demo_db) \<lparr>descriptor_value = Some syncMethod\<rparr> =
     Inr \<lparr>descriptor_value = Some (wrapped (rootPrismaClient demo_db) syncMethod)\<rparr> \<and>
   fst (async_return (wrapped (rootPrismaClient demo_db) syncMethod () () None) empty_engine) =
     Inr 7 \<and>
   fst (async_return (wrapped (rootPrismaClient demo_db) syncMethod () ()
          (Some (client_members demo_db (Tx_handle 0)))) empty_engine) = Inr 7"
  by (simp add: Transactional_def wrapped_runInTransaction runInTransaction_Some
      runInTransaction_root_None syncMethod_def)

text \<open>
  Claim C9 as amended. The decorator reports, at decoration time, only a member whose
  descriptor carries no method. Every member that carries one is accepted, and a method
  that returns a plain value (or throws synchronously) becomes a function whose call is
  the promise of that outcome, run as a unit of work. That such a method is not to be
  decorated is said by the type parameter of the decorator alone.
\<close>

theorem Transactional_reports_missing_method_only:
  "Transactional root \<lparr>descriptor_value = None\<rparr> =
     Inl (Error ''Transactional decorator can only be applied to methods.'') \<and>
   Transactional root \<lparr>descriptor_value = Some originalMethod\<rparr> =
     Inr \<lparr>descriptor_value = Some (wrapped root originalMethod)\<rparr> \<and>
   wrapped root (\<lambda>this args store. Plain (outcome this args)) this' args' store =
     Promise (async_return
       (runInTransaction root (\<lambda>store'. Promise (\<lambda>eng. (outcome this' args', eng))) store))"
proof -
  have plain: "async_return (Plain (outcome this' args')) = (\<lambda>eng. (outcome this' args', eng))"
    by (simp add: fun_eq_iff)
  show ?thesis
    by (simp add: Transactional_def wrapped_runInTransaction plain)
qed

section \<open>The repository factory\<close>

text \<open>
  Claim C8 is right about what the factory is for, and the code does not do it:
  \<^verbatim>\<open>defineRepository\<close> calls \<^verbatim>\<open>BaseRepository.forModel\<close>, which the class does not
  have, so the call raises a \<^verbatim>\<open>TypeError\<close> for every model name.
\<close>

theorem defineRepository_raises:
  "defineRepository ''User'' = Inl (TypeError ''BaseRepository.forModel is not a function'')"
  by (simp add: defineRepository_def BaseRepository_static_def)

end
